theory Spec2Isabelle
  imports Main "HOL-Library.Word"
begin

section \<open>The hanu bot: data model\<close>

text \<open>
  The development follows \<^verbatim>\<open>vendor/github.com/sbstjn/hanu/main.go\<close>. A Go \<^verbatim>\<open>error\<close>
  built with \<^verbatim>\<open>errors.New\<close> or \<^verbatim>\<open>fmt.Errorf\<close> is observed through its message only, so
  an error value is its message. A nil pointer is \<open>None\<close>.
\<close>

type_synonym error = string

text \<open>The connection handle \<^verbatim>\<open>*websocket.Conn\<close>: an opaque reference.\<close>

datatype Conn = Conn nat

text \<open>
  Modelled from the spec: the struct \<^verbatim>\<open>Message\<close>, declared in another file of the package.
  \<^verbatim>\<open>main.go\<close> builds it as \<^verbatim>\<open>Message{ID: count, Type: "ping"}\<close> with \<^verbatim>\<open>count\<close> a
  \<^verbatim>\<open>uint64\<close>, switches on \<^verbatim>\<open>msg.Type\<close>, and reads the text and the user through
  \<^verbatim>\<open>Text()\<close> and \<^verbatim>\<open>User()\<close>. The frame schema of the spec (id, type, text, channel,
  user) gives the fields.
\<close>

record Message =
  msg_ID :: "64 word"
  msg_Type :: string
  msg_Channel :: string
  msg_User :: string
  msg_Text :: string

text \<open>\<^verbatim>\<open>Message{}\<close>, the zero value.\<close>

definition Message_zero :: Message where
  "Message_zero = \<lparr>msg_ID = 0, msg_Type = [], msg_Channel = [], msg_User = [], msg_Text = []\<rparr>"

text \<open>
  Modelled from the spec: \<^verbatim>\<open>Message.SetText\<close>, whose body is not in \<^verbatim>\<open>main.go\<close>;
  \<^verbatim>\<open>main.go\<close> calls it with the new text. In the spec the operations on a Message mutate
  the Message's own Text field and nothing else, and a reply has its text and echoes the
  channel of the message it answers.
\<close>

definition SetText :: "Message \<Rightarrow> string \<Rightarrow> Message" where
  "SetText m text = m\<lparr>msg_Text := text\<rparr>"

text \<open>
  The other methods of \<^verbatim>\<open>Message\<close> that \<^verbatim>\<open>main.go\<close> calls are not in \<^verbatim>\<open>main.go\<close>
  either. The functions below take them as a parameter, so every theorem holds for any
  implementation of them. The methods with a pointer receiver return the updated message.
\<close>

record MessageMethods =
  IsRelevantFor :: "Message \<Rightarrow> string \<Rightarrow> bool"
  StripMention :: "Message \<Rightarrow> string \<Rightarrow> Message"
  StripLinkMarkup :: "Message \<Rightarrow> Message"
  IsHelpRequest :: "Message \<Rightarrow> bool"
  IsDirectMessage :: "Message \<Rightarrow> bool"

text \<open>
  \<^verbatim>\<open>CommandInterface\<close>: \<^verbatim>\<open>cmd.Get()\<close> is the pattern, with its literal \<^verbatim>\<open>Text()\<close> and its
  \<^verbatim>\<open>Match(text)\<close>, which returns a match and an error; \<^verbatim>\<open>cmd.Description()\<close> is the
  description. The matching engine is an external library: \<open>Match\<close> is any function.
  What a handler does is outside this file; calling \<^verbatim>\<open>cmd.Handle\<close> is recorded as an
  effect, and a handler is taken to return and to leave the Bot alone.
\<close>

record 'm Pattern =
  Text :: string
  Match :: "string \<Rightarrow> 'm \<times> error option"

record 'm Command =
  Get :: "'m Pattern"
  Description :: string

record 'm Bot =
  Socket :: "Conn option"
  Token :: string
  ID :: string
  Commands :: "'m Command list"

text \<open>
  Modelled from the spec: \<^verbatim>\<open>NewConversation(match, msg, socket)\<close>, not in \<^verbatim>\<open>main.go\<close>: a
  Conversation bundles the extracted parameters, the triggering Message and the connection.
\<close>

record 'm Conversation =
  conv_match :: 'm
  conv_message :: Message
  conv_socket :: "Conn option"

definition NewConversation :: "'m \<Rightarrow> Message \<Rightarrow> Conn option \<Rightarrow> 'm Conversation" where
  "NewConversation match msg socket =
     \<lparr>conv_match = match, conv_message = msg, conv_socket = socket\<rparr>"

text \<open>
  What processing a message does to the outside: \<open>Handle i c\<close> is the call
  \<^verbatim>\<open>b.Commands[i].Handle(c)\<close>, \<open>JSON_Send s m\<close> is \<^verbatim>\<open>websocket.JSON.Send(s, m)\<close>.
\<close>

datatype 'm effect =
  Handle nat "'m Conversation"
| JSON_Send "Conn option" Message

section \<open>Command dispatch\<close>

text \<open>
  \<^verbatim>\<open>searchCommand\<close>: the loop \<^verbatim>\<open>for i := 0; i < len(b.Commands); i++\<close>, from index \<open>i\<close> on.
\<close>

function searchCommand_from :: "'m Bot \<Rightarrow> Message \<Rightarrow> nat \<Rightarrow> 'm effect list" where
  "searchCommand_from b msg i =
     (if i < length (Commands b) then
        (let cmd = Commands b ! i;
             (match, err) = Match (Get cmd) (msg_Text msg)
         in (if err = None then [Handle i (NewConversation match msg (Socket b))] else [])
            @ searchCommand_from b msg (Suc i))
      else [])"
  by pat_completeness auto
termination
  by (relation "measure (\<lambda>(b, msg, i). length (Commands b) - i)") auto

declare searchCommand_from.simps [simp del]

definition searchCommand :: "'m Bot \<Rightarrow> Message \<Rightarrow> 'm effect list" where
  "searchCommand b msg = searchCommand_from b msg 0"

text \<open>How often the handler of command \<open>i\<close> is invoked in a list of effects.\<close>

fun is_Handle_of :: "nat \<Rightarrow> 'm effect \<Rightarrow> bool" where
  "is_Handle_of i (Handle j c) = (j = i)"
| "is_Handle_of i (JSON_Send s m) = False"

definition invocations :: "nat \<Rightarrow> 'm effect list \<Rightarrow> nat" where
  "invocations i es = length (filter (is_Handle_of i) es)"

text \<open>The messages written to the connection in a list of effects.\<close>

fun sent :: "'m effect list \<Rightarrow> Message list" where
  "sent [] = []"
| "sent (Handle i c # es) = sent es"
| "sent (JSON_Send s m # es) = m # sent es"

text \<open>Whether command \<open>i\<close> matches a text: \<^verbatim>\<open>err == nil\<close>.\<close>

definition matches :: "'m Bot \<Rightarrow> string \<Rightarrow> nat \<Rightarrow> bool" where
  "matches b text i = (snd (Match (Get (Commands b ! i)) text) = None)"

definition invoke :: "'m Bot \<Rightarrow> Message \<Rightarrow> nat \<Rightarrow> 'm effect" where
  "invoke b msg i =
     Handle i (NewConversation (fst (Match (Get (Commands b ! i)) (msg_Text msg))) msg (Socket b))"

section \<open>The help response\<close>

definition greeting :: string where
  "greeting = ''Thanks for asking! I can support you with those features:'' @ [CHR 0x0A, CHR 0x0A]"

text \<open>The separator \<^verbatim>\<open>" *-* "\<close> of the source has an en dash (U+2013), three bytes in UTF-8.\<close>

definition separator :: string where
  "separator = '' *'' @ [CHR 0xE2, CHR 0x80, CHR 0x93] @ ''* ''"

text \<open>The loop of \<^verbatim>\<open>sendHelp\<close>, from index \<open>i\<close> on, with the text built so far.\<close>

function sendHelp_from :: "'m Bot \<Rightarrow> nat \<Rightarrow> string \<Rightarrow> string" where
  "sendHelp_from b i help =
     (if i < length (Commands b) then
        (let cmd = Commands b ! i;
             help = help @ ''`'' @ Text (Get cmd) @ ''`'';
             help = (if Description cmd \<noteq> [] then help @ separator @ Description cmd else help);
             help = help @ [CHR 0x0A]
         in sendHelp_from b (Suc i) help)
      else help)"
  by pat_completeness auto
termination
  by (relation "measure (\<lambda>(b, i, help). length (Commands b) - i)") auto

declare sendHelp_from.simps [simp del]

definition sendHelp :: "MessageMethods \<Rightarrow> 'm Bot \<Rightarrow> Message \<Rightarrow> 'm effect list" where
  "sendHelp mm b msg =
     (let help = sendHelp_from b 0 greeting;
          help = (if \<not> IsDirectMessage mm msg then ''<@'' @ msg_User msg @ ''>: '' @ help else help);
          msg = SetText msg help
      in [JSON_Send (Socket b) msg])"

text \<open>
  The help block in the spec's words: one line per command, the pattern text quoted,
  then the description when there is one.
\<close>

definition help_line :: "'m Command \<Rightarrow> string" where
  "help_line cmd =
     ''`'' @ Text (Get cmd) @ ''`''
     @ (if Description cmd = [] then [] else separator @ Description cmd)
     @ [CHR 0x0A]"

definition at_mention :: "string \<Rightarrow> string" where
  "at_mention user = ''<@'' @ user @ ''>: ''"

definition help_block :: "MessageMethods \<Rightarrow> 'm Bot \<Rightarrow> Message \<Rightarrow> string" where
  "help_block mm b msg =
     (if IsDirectMessage mm msg then [] else at_mention (msg_User msg))
     @ greeting @ concat (map help_line (Commands b))"

section \<open>Processing one message\<close>

definition process :: "MessageMethods \<Rightarrow> 'm Bot \<Rightarrow> Message \<Rightarrow> 'm effect list" where
  "process mm b message =
     (if \<not> IsRelevantFor mm message (ID b) then []
      else
        (let message = StripMention mm message (ID b);
             message = StripLinkMarkup mm message
         in if IsHelpRequest mm message then sendHelp mm b message
            else searchCommand b message))"

section \<open>Session handshake\<close>

text \<open>\<^verbatim>\<open>time.Duration\<close> counts nanoseconds.\<close>

definition Second :: int where
  "Second = 1000000000"

definition Minute :: int where
  "Minute = 60 * Second"

record Dialer =
  dialer_Timeout :: int
  KeepAlive :: int

record Transport =
  transport_Dial :: Dialer
  TLSHandshakeTimeout :: int

record Client =
  client_Transport :: Transport
  client_Timeout :: int

record handshakeResponseSelf =
  self_ID :: string

record handshakeResponse =
  Ok :: bool
  Error :: string
  URL :: string
  Self :: handshakeResponseSelf

text \<open>
  The HTTP response: its status code and what \<^verbatim>\<open>ioutil.ReadAll(res.Body)\<close> gives, the
  body or an error.
\<close>

record Response =
  StatusCode :: int
  Body :: "error + string"

record Config =
  Location :: string
  Origin :: string
  config_Dialer :: "Dialer option"

text \<open>
  The libraries and the network that \<^verbatim>\<open>Handshake\<close> calls: \<^verbatim>\<open>client.Get\<close>,
  \<^verbatim>\<open>json.Unmarshal\<close> into a \<^verbatim>\<open>handshakeResponse\<close>, \<^verbatim>\<open>websocket.NewConfig\<close> and
  \<^verbatim>\<open>websocket.DialConfig\<close>. Each returns its result or an error (\<open>Inl\<close>).
\<close>

record World =
  client_Get :: "Client \<Rightarrow> string \<Rightarrow> error + Response"
  json_Unmarshal :: "string \<Rightarrow> error + handshakeResponse"
  websocket_NewConfig :: "string \<Rightarrow> string \<Rightarrow> error + Config"
  websocket_DialConfig :: "Config \<Rightarrow> error + Conn"

text \<open>The calls that reach the network, in the order they happen.\<close>

datatype io =
  HTTP_Get Client string
| Body_Close
| WS_Dial Config

text \<open>\<^verbatim>\<open>%d\<close> of an \<^verbatim>\<open>int\<close>: decimal digits, with a minus sign when negative.\<close>

definition digit :: "nat \<Rightarrow> char" where
  "digit n = ''0123456789'' ! n"

fun digits :: "nat \<Rightarrow> string" where
  "digits n = (if n < 10 then [digit n] else digits (n div 10) @ [digit (n mod 10)])"

declare digits.simps [simp del]

definition Sprint_d :: "int \<Rightarrow> string" where
  "Sprint_d n = (if n < 0 then CHR ''-'' # digits (nat (- n)) else digits (nat n))"


text \<open>
  \<^verbatim>\<open>Handshake\<close> once \<^verbatim>\<open>client.Get\<close> has returned a response. The result is the network
  calls made, the receiver \<^verbatim>\<open>*b\<close> as the call leaves it, and the returned pair
  \<^verbatim>\<open>(*Bot, error)\<close>. A Bot returned is the receiver.
\<close>

definition Handshake_response ::
  "World \<Rightarrow> 'm Bot \<Rightarrow> Dialer \<Rightarrow> Response \<Rightarrow> io list \<times> 'm Bot \<times> ('m Bot option \<times> error option)"
where
  "Handshake_response w b dialer res =
     (if StatusCode res \<noteq> 200 then
        ([], b, (None, Some (''Failed with HTTP Code: '' @ Sprint_d (StatusCode res))))
      else
        (case Body res of
           Inl err \<Rightarrow> ([], b, (None, Some ''Failed to read body from response''))
         | Inr body \<Rightarrow>
             (case json_Unmarshal w body of
                Inl err \<Rightarrow> ([], b, (None, Some (''Failed to unmarshal JSON: '' @ body)))
              | Inr response \<Rightarrow>
                  (if \<not> Ok response then ([], b, (None, Some (Error response)))
                   else
                     (let b = b\<lparr>ID := self_ID (Self response)\<rparr> in
                      case websocket_NewConfig w (URL response) ''https://api.slack.com/'' of
                        Inl err \<Rightarrow>
                          ([], b, (None, Some (''Failed to create config for Websocket: '' @ err)))
                      | Inr config \<Rightarrow>
                          (let config = config\<lparr>config_Dialer := Some dialer\<rparr> in
                           case websocket_DialConfig w config of
                             Inl err \<Rightarrow>
                               ([WS_Dial config], b\<lparr>Socket := None\<rparr>,
                                (None, Some (''Failed to connect to Websocket: '' @ err)))
                           | Inr conn \<Rightarrow>
                               (let b = b\<lparr>Socket := Some conn\<rparr>
                                in ([WS_Dial config], b, (Some b, None)))))))))"

text \<open>The locals \<^verbatim>\<open>dialer\<close>, \<^verbatim>\<open>transport\<close> and \<^verbatim>\<open>client\<close> of \<^verbatim>\<open>Handshake\<close>, and the URL it gets.\<close>

definition dialer :: Dialer where
  "dialer = \<lparr>dialer_Timeout = 30 * Second, KeepAlive = 30 * Second\<rparr>"

definition transport :: Transport where
  "transport = \<lparr>transport_Dial = dialer, TLSHandshakeTimeout = 15 * Second\<rparr>"

definition client :: Client where
  "client = \<lparr>client_Transport = transport, client_Timeout = 30 * Second\<rparr>"

definition rtm_start :: "string \<Rightarrow> string" where
  "rtm_start token = ''https://slack.com/api/rtm.start?token='' @ token"

definition Handshake ::
  "World \<Rightarrow> 'm Bot \<Rightarrow> io list \<times> 'm Bot \<times> ('m Bot option \<times> error option)"
where
  "Handshake w b =
     (case client_Get w client (rtm_start (Token b)) of
        Inl err \<Rightarrow>
          ([HTTP_Get client (rtm_start (Token b))], b,
           (None, Some ''Failed to connect to Slack RTM API''))
      | Inr res \<Rightarrow>
          (let (calls, b', ret) = Handshake_response w b dialer res
           in (HTTP_Get client (rtm_start (Token b)) # calls @ [Body_Close], b', ret)))"

text \<open>The three parts of the result.\<close>

definition calls :: "io list \<times> 'm Bot \<times> ('m Bot option \<times> error option) \<Rightarrow> io list" where
  "calls h = fst h"

definition receiver :: "io list \<times> 'm Bot \<times> ('m Bot option \<times> error option) \<Rightarrow> 'm Bot" where
  "receiver h = fst (snd h)"

definition returned ::
  "io list \<times> 'm Bot \<times> ('m Bot option \<times> error option) \<Rightarrow> 'm Bot option \<times> error option"
where
  "returned h = snd (snd h)"

text \<open>A world that answers each call with a fixed result, for evaluating \<^verbatim>\<open>Handshake\<close>.\<close>

definition world ::
  "error + Response \<Rightarrow> error + handshakeResponse \<Rightarrow> error + Config \<Rightarrow> error + Conn \<Rightarrow> World"
where
  "world g u c d =
     \<lparr>client_Get = (\<lambda>cl url. g), json_Unmarshal = (\<lambda>body. u),
      websocket_NewConfig = (\<lambda>loc origin. c), websocket_DialConfig = (\<lambda>cfg. d)\<rparr>"

definition ok_200 :: "string \<Rightarrow> error + Response" where
  "ok_200 body = Inr \<lparr>StatusCode = 200, Body = Inr body\<rparr>"



definition accepted :: handshakeResponse where
  "accepted =
     \<lparr>Ok = True, Error = [], URL = ''wss://example.test/rtm'', Self = \<lparr>self_ID = ''U123''\<rparr>\<rparr>"

definition rtm_config :: Config where
  "rtm_config =
     \<lparr>Location = ''wss://example.test/rtm'', Origin = ''https://api.slack.com/'',
      config_Dialer = None\<rparr>"

definition fresh_bot :: "unit Bot" where
  "fresh_bot = \<lparr>Socket = None, Token = ''xoxb'', ID = [], Commands = []\<rparr>"

definition New :: "World \<Rightarrow> string \<Rightarrow> io list \<times> 'm Bot \<times> ('m Bot option \<times> error option)" where
  "New w token = Handshake w \<lparr>Socket = None, Token = token, ID = [], Commands = []\<rparr>"

section \<open>Listen: the keepalive goroutine\<close>

text \<open>
  The goroutine started by \<^verbatim>\<open>Listen\<close> runs until its \<^verbatim>\<open>select\<close> times out. What it meets
  in one turn of its loop comes from outside: whether the ping could be sent, whether
  \<^verbatim>\<open>Close\<close> worked, and which case of the \<^verbatim>\<open>select\<close> fired. A run is driven by the list
  of these turns; when the list ends the goroutine is still running.
\<close>

datatype selected = Pong | Timeout

record round =
  send_err :: "error option"
  close_err :: "error option"
  selected :: selected
  final_close_err :: "error option"

text \<open>
  \<open>Select_pong_After d\<close> is the \<^verbatim>\<open>select\<close> on the \<^verbatim>\<open>pong\<close> channel and \<^verbatim>\<open>time.After(d)\<close>.
  The \<^verbatim>\<open>log.Printf\<close> calls pass no argument for their \<^verbatim>\<open>%v\<close>; \<open>Log\<close> keeps the format.
\<close>

datatype monitor_effect =
  Sleep int
| Send_ping "Conn option" Message
| Socket_Close "Conn option"
| Select_pong_After int
| Log string

fun monitor_loop :: "Conn option \<Rightarrow> 64 word \<Rightarrow> round list \<Rightarrow> monitor_effect list \<times> bool" where
  "monitor_loop s count [] = ([], False)"
| "monitor_loop s count (r # rs) =
     (let count = count + 1;
          send =
            Send_ping s (Message_zero\<lparr>msg_ID := count, msg_Type := ''ping''\<rparr>)
            # (case send_err r of
                 None \<Rightarrow> []
               | Some err \<Rightarrow>
                   Log ''Unable to send a ping to the Slack API: %v''
                   # Socket_Close s
                   # (case close_err r of
                        None \<Rightarrow> []
                      | Some err \<Rightarrow> [Log ''Unable to close websocket: %v'']))
      in case selected r of
           Pong \<Rightarrow>
             (let (effects, finished) = monitor_loop s count rs
              in (send @ [Select_pong_After Minute, Sleep Minute] @ effects, finished))
         | Timeout \<Rightarrow>
             (send
              @ [Select_pong_After Minute,
                 Log ''Waited more than a minute for a pong, exiting'',
                 Socket_Close s]
              @ (case final_close_err r of
                   None \<Rightarrow> []
                 | Some err \<Rightarrow> [Log ''Unable to close websocket: %v'']),
              True))"

text \<open>
  The goroutine: its effects, and whether it has returned. The socket is the one that
  \<^verbatim>\<open>Handshake\<close> has set; the theorems are about a socket that is not nil.
\<close>

definition monitor :: "Conn option \<Rightarrow> round list \<Rightarrow> monitor_effect list \<times> bool" where
  "monitor s rounds =
     (let (effects, finished) = monitor_loop s 100 rounds
      in (Sleep (5 * Second) # effects, finished))"

text \<open>The heartbeat frames among the effects, in the order sent.\<close>

fun heartbeats :: "monitor_effect list \<Rightarrow> Message list" where
  "heartbeats [] = []"
| "heartbeats (Send_ping s m # es) = m # heartbeats es"
| "heartbeats (e # es) = heartbeats es"

definition heartbeat_ids :: "monitor_effect list \<Rightarrow> nat list" where
  "heartbeat_ids es = map (\<lambda>m. unat (msg_ID m)) (heartbeats es)"

text \<open>How many turns of the loop a run goes through: up to and with the first timeout.\<close>

fun executed :: "round list \<Rightarrow> nat" where
  "executed [] = 0"
| "executed (r # rs) = (case selected r of Pong \<Rightarrow> Suc (executed rs) | Timeout \<Rightarrow> 1)"

text \<open>The \<open>k\<close>-th heartbeat frame, counting from 0.\<close>

definition ping :: "nat \<Rightarrow> Message" where
  "ping k = Message_zero\<lparr>msg_ID := of_nat (101 + k), msg_Type := ''ping''\<rparr>"

text \<open>The \<open>k\<close>-th heartbeat frame sent after the counter stood at \<open>c\<close>.\<close>

definition ping_after :: "64 word \<Rightarrow> nat \<Rightarrow> Message" where
  "ping_after c k = Message_zero\<lparr>msg_ID := c + 1 + of_nat k, msg_Type := ''ping''\<rparr>"

text \<open>A turn whose ping is sent and which ends as given.\<close>

definition sent_round :: "selected \<Rightarrow> error option \<Rightarrow> round" where
  "sent_round sel c = \<lparr>send_err = None, close_err = None, selected = sel, final_close_err = c\<rparr>"

text \<open>
  The turns of the loop in closed form. A turn sends its heartbeat frame and, when the
  send fails, logs and closes. Then it waits up to 60 seconds for the acknowledgment:
  an acknowledged turn sleeps 60 seconds, a turn that times out logs and closes the
  connection. The \<open>k\<close>-th turn sends the \<open>k\<close>-th heartbeat.
\<close>

definition send_heartbeat :: "Conn option \<Rightarrow> Message \<Rightarrow> round \<Rightarrow> monitor_effect list" where
  "send_heartbeat s m r =
     Send_ping s m
     # (case send_err r of
          None \<Rightarrow> []
        | Some err \<Rightarrow>
            Log ''Unable to send a ping to the Slack API: %v''
            # Socket_Close s
            # (case close_err r of
                 None \<Rightarrow> []
               | Some err \<Rightarrow> [Log ''Unable to close websocket: %v'']))"

definition acknowledged :: "Conn option \<Rightarrow> nat \<Rightarrow> round \<Rightarrow> monitor_effect list" where
  "acknowledged s k r =
     send_heartbeat s (ping k) r @ [Select_pong_After (60 * Second), Sleep (60 * Second)]"

definition timed_out :: "Conn option \<Rightarrow> nat \<Rightarrow> round \<Rightarrow> monitor_effect list" where
  "timed_out s k r =
     send_heartbeat s (ping k) r
     @ [Select_pong_After (60 * Second),
        Log ''Waited more than a minute for a pong, exiting'', Socket_Close s]
     @ (case final_close_err r of None \<Rightarrow> [] | Some err \<Rightarrow> [Log ''Unable to close websocket: %v''])"

text \<open>The time the goroutine has spent in \<^verbatim>\<open>time.Sleep\<close>.\<close>

fun slept :: "monitor_effect list \<Rightarrow> int" where
  "slept [] = 0"
| "slept (Sleep d # es) = d + slept es"
| "slept (e # es) = slept es"

section \<open>Listen: the receive loop\<close>

text \<open>
  Modelled from the spec: the frame schema, whose JSON tags are declared with
  \<^verbatim>\<open>Message\<close>. A frame is a JSON object; a field it does not carry is absent.
  Decoding into a \<^verbatim>\<open>Message\<close> sets the fields the frame carries and leaves the others
  as they are.
\<close>

record Frame =
  frame_id :: "64 word option"
  frame_type :: "string option"
  frame_channel :: "string option"
  frame_user :: "string option"
  frame_text :: "string option"

definition decode :: "Frame \<Rightarrow> Message \<Rightarrow> Message" where
  "decode f m =
     \<lparr>msg_ID = (case frame_id f of None \<Rightarrow> msg_ID m | Some v \<Rightarrow> v),
      msg_Type = (case frame_type f of None \<Rightarrow> msg_Type m | Some v \<Rightarrow> v),
      msg_Channel = (case frame_channel f of None \<Rightarrow> msg_Channel m | Some v \<Rightarrow> v),
      msg_User = (case frame_user f of None \<Rightarrow> msg_User m | Some v \<Rightarrow> v),
      msg_Text = (case frame_text f of None \<Rightarrow> msg_Text m | Some v \<Rightarrow> v)\<rparr>"

text \<open>
  One turn of the loop gets what \<^verbatim>\<open>websocket.JSON.Receive\<close> returns, an error or a frame,
  and whether the keepalive goroutine is waiting on the \<^verbatim>\<open>pong\<close> channel at that moment:
  the channel is unbuffered and the send sits in a \<^verbatim>\<open>select\<close> with a \<^verbatim>\<open>default\<close>, so it
  hands over to a waiting receiver or does nothing. \<open>Go_process m\<close> is \<^verbatim>\<open>go b.process(m)\<close>,
  which evaluates \<open>m\<close> and goes on without waiting for the call.
\<close>

datatype listen_effect =
  Go_monitor
| Pong_delivered
| Pong_dropped
| Go_process Message

type_synonym turn = "(error + Frame) \<times> bool"

fun Listen_loop :: "Message \<Rightarrow> turn list \<Rightarrow> listen_effect list \<times> error option" where
  "Listen_loop msg [] = ([], None)"
| "Listen_loop msg ((Inl err, waiting) # turns) = ([], Some err)"
| "Listen_loop msg ((Inr f, waiting) # turns) =
     (let msg = decode f msg;
          effect =
            (if msg_Type msg = ''pong'' then (if waiting then Pong_delivered else Pong_dropped)
             else Go_process msg);
          msg = Message_zero;
          (effects, ret) = Listen_loop msg turns
      in (effect # effects, ret))"

text \<open>\<^verbatim>\<open>Listen\<close>: its effects, and the error it returns, if it has returned.\<close>

definition Listen :: "turn list \<Rightarrow> listen_effect list \<times> error option" where
  "Listen turns =
     (let (effects, ret) = Listen_loop Message_zero turns
      in (Go_monitor # effects, ret))"

text \<open>How the loop treats one frame, in the spec's words.\<close>

definition classify :: "Frame \<times> bool \<Rightarrow> listen_effect" where
  "classify fw =
     (let m = decode (fst fw) Message_zero
      in if msg_Type m = ''pong'' then (if snd fw then Pong_delivered else Pong_dropped)
         else Go_process m)"

definition received :: "Frame \<times> bool \<Rightarrow> turn" where
  "received fw = (Inr (fst fw), snd fw)"

section \<open>Message normalisation\<close>

text \<open>\<^verbatim>\<open>strings.HasPrefix(s, prefix)\<close>.\<close>

definition HasPrefix :: "string \<Rightarrow> string \<Rightarrow> bool" where
  "HasPrefix s p = (take (length p) s = p)"

text \<open>
  Modelled from the spec: what \<^verbatim>\<open>Message.StripMention\<close>, whose body is not in
  \<^verbatim>\<open>main.go\<close>, does to the text. It removes the leading mention token, idempotently,
  and is a no-op if the token is absent: the token is taken from the front of the text
  until the text does not begin with it. The spec does not give the form of the token,
  so the token is a parameter; an empty token is never removed.
\<close>

function strip_leading :: "string \<Rightarrow> string \<Rightarrow> string" where
  "strip_leading token text =
     (if token \<noteq> [] \<and> HasPrefix text token
      then strip_leading token (drop (length token) text)
      else text)"
  by pat_completeness auto
termination
proof (relation "measure (\<lambda>(token, text). length text)")
  show "wf (measure (\<lambda>(token, text). length text))"
    by simp
next
  fix token t :: string
  assume "token \<noteq> [] \<and> HasPrefix t token"
  then have "0 < length token" and "length (take (length token) t) = length token"
    by (simp_all add: HasPrefix_def)
  then have "0 < length token" and "length token \<le> length t"
    by simp_all
  then have "length t - length token < length t"
    by arith
  then show "((token, drop (length token) t), (token, t))
      \<in> measure (\<lambda>(token, text). length text)"
    by simp
qed

declare strip_leading.simps [simp del]

text \<open>
  Modelled from the spec: \<^verbatim>\<open>Message.StripMention\<close>. \<open>token selfID\<close> is the mention token
  referencing \<open>selfID\<close>.
\<close>

definition Message_StripMention :: "(string \<Rightarrow> string) \<Rightarrow> Message \<Rightarrow> string \<Rightarrow> Message" where
  "Message_StripMention token m selfID =
     SetText m (strip_leading (token selfID) (msg_Text m))"

section \<open>Concrete inputs\<close>

text \<open>
  Modelled from the spec: an implementation of the \<^verbatim>\<open>Message\<close> methods, to evaluate
  the functions on concrete messages. A message is relevant if it is a direct message or
  its text contains a mention token referencing the bot; a help request is the text
  \<^verbatim>\<open>help\<close>; link markup is left as it is. Two forms that the spec leaves open are
  chosen for the example: the mention token has the form of the at-mention that
  \<^verbatim>\<open>sendHelp\<close> writes, and a direct-message channel starts with \<^verbatim>\<open>D\<close>.
\<close>

definition example_token :: "string \<Rightarrow> string" where
  "example_token user = ''<@'' @ user @ ''>''"

fun Contains :: "string \<Rightarrow> string \<Rightarrow> bool" where
  "Contains [] p = (p = [])"
| "Contains (c # s) p = (HasPrefix (c # s) p \<or> Contains s p)"

definition example_methods :: MessageMethods where
  "example_methods =
     \<lparr>IsRelevantFor =
        (\<lambda>m user. HasPrefix (msg_Channel m) ''D'' \<or> Contains (msg_Text m) (example_token user)),
      StripMention = Message_StripMention example_token,
      StripLinkMarkup = (\<lambda>m. m),
      IsHelpRequest = (\<lambda>m. msg_Text m = ''help''),
      IsDirectMessage = (\<lambda>m. HasPrefix (msg_Channel m) ''D'')\<rparr>"

text \<open>Two matchers: the text is the pattern; the text is \<^verbatim>\<open>deploy\<close> and one parameter.\<close>

type_synonym params = "(string \<times> string) list"

definition exact :: "string \<Rightarrow> string \<Rightarrow> params \<times> error option" where
  "exact pattern text = (if text = pattern then ([], None) else ([], Some ''no match''))"

definition deploy_env :: "string \<Rightarrow> params \<times> error option" where
  "deploy_env text =
     (if HasPrefix text ''deploy '' then ([(''env'', drop 7 text)], None)
      else ([], Some ''no match''))"

definition hello_bot :: "params Bot" where
  "hello_bot =
     \<lparr>Socket = Some (Conn 1), Token = ''xoxb'', ID = ''U123'',
      Commands = [\<lparr>Get = \<lparr>Text = ''hello'', Match = exact ''hello''\<rparr>, Description = []\<rparr>]\<rparr>"

definition deploy_bot :: "params Bot" where
  "deploy_bot =
     \<lparr>Socket = Some (Conn 1), Token = ''xoxb'', ID = ''U123'',
      Commands =
        [\<lparr>Get = \<lparr>Text = ''deploy <env>'', Match = deploy_env\<rparr>, Description = ''roll out''\<rparr>,
         \<lparr>Get = \<lparr>Text = ''deploy production'', Match = exact ''deploy production''\<rparr>,
          Description = []\<rparr>]\<rparr>"

definition said :: "string \<Rightarrow> string \<Rightarrow> string \<Rightarrow> Message" where
  "said channel user text =
     \<lparr>msg_ID = 7, msg_Type = ''message'', msg_Channel = channel, msg_User = user, msg_Text = text\<rparr>"

text \<open>
  Two turns of the keepalive loop whose ping cannot be sent: in one a pong arrives
  afterwards, in the other the wait times out.
\<close>

definition failed_send_then_pong :: round where
  "failed_send_then_pong =
     \<lparr>send_err = Some ''broken pipe'', close_err = None, selected = Pong, final_close_err = None\<rparr>"

definition failed_send_then_timeout :: round where
  "failed_send_then_timeout =
     \<lparr>send_err = Some ''broken pipe'', close_err = None, selected = Timeout,
      final_close_err = Some ''use of closed network connection''\<rparr>"

text \<open>Two frames: an acknowledgment, and a text in a direct-message channel.\<close>

definition pong_frame :: Frame where
  "pong_frame =
     \<lparr>frame_id = Some 101, frame_type = Some ''pong'', frame_channel = None,
      frame_user = None, frame_text = None\<rparr>"

definition text_frame :: "string \<Rightarrow> Frame" where
  "text_frame text =
     \<lparr>frame_id = None, frame_type = Some ''message'', frame_channel = Some ''D1'',
      frame_user = Some ''U7'', frame_text = Some text\<rparr>"

definition empty_frame :: Frame where
  "empty_frame =
     \<lparr>frame_id = None, frame_type = None, frame_channel = None, frame_user = None,
      frame_text = None\<rparr>"


section \<open>Command dispatch: proofs\<close>

text \<open>The loop of \<^verbatim>\<open>searchCommand\<close> in closed form.\<close>

lemma searchCommand_from_eq:
  "searchCommand_from b msg i =
     map (invoke b msg) (filter (matches b (msg_Text msg)) [i..<length (Commands b)])"
proof (induction b msg i rule: searchCommand_from.induct)
  case (1 b msg i)
  show ?case
  proof (cases "i < length (Commands b)")
    case True
    obtain match err where m: "Match (Get (Commands b ! i)) (msg_Text msg) = (match, err)"
      by (cases "Match (Get (Commands b ! i)) (msg_Text msg)")
    have ih: "searchCommand_from b msg (Suc i) =
        map (invoke b msg) (filter (matches b (msg_Text msg)) [Suc i..<length (Commands b)])"
      using "1.IH" [OF True refl m [symmetric]] by simp
    have up: "[i..<length (Commands b)] = i # [Suc i..<length (Commands b)]"
      using True by (simp add: upt_conv_Cons)
    show ?thesis
      using True m ih
      by (subst searchCommand_from.simps) (simp add: up matches_def invoke_def)
  next
    case False
    then show ?thesis
      by (subst searchCommand_from.simps) simp
  qed
qed

lemma invocations_map_invoke:
  "distinct js \<Longrightarrow> invocations i (map (invoke b msg) js) = (if i \<in> set js then 1 else 0)"
  by (induction js) (auto simp: invocations_def invoke_def)

text \<open>
  C1. \<^verbatim>\<open>searchCommand\<close> tries every registered command against the message text in
  registration order and calls the handler of each command that matches, each once; the
  others are skipped. With one command whose pattern is \<^verbatim>\<open>hello\<close>, the text \<^verbatim>\<open>hello\<close>
  calls its handler once, provided the matcher accepts it, and the text \<^verbatim>\<open>goodbye\<close>
  calls nothing, provided the matcher rejects it.
\<close>

theorem dispatch_any_match:
  fixes b :: "'m Bot"
  shows
  "searchCommand b msg
     = map (invoke b msg) (filter (matches b (msg_Text msg)) [0..<length (Commands b)])
   \<and> (i < length (Commands b) \<longrightarrow>
        invocations i (searchCommand b msg) = (if matches b (msg_Text msg) i then 1 else 0))
   \<and> (Commands b = [cmd] \<and> Text (Get cmd) = ''hello'' \<and> msg_Text msg = ''hello''
        \<and> matches b ''hello'' 0 \<longrightarrow>
        searchCommand b msg = [invoke b msg 0] \<and> invocations 0 (searchCommand b msg) = 1)
   \<and> (Commands b = [cmd] \<and> Text (Get cmd) = ''hello'' \<and> msg_Text msg = ''goodbye''
        \<and> \<not> matches b ''goodbye'' 0 \<longrightarrow>
        searchCommand b msg = [])"
proof -
  have all: "searchCommand b msg
     = map (invoke b msg) (filter (matches b (msg_Text msg)) [0..<length (Commands b)])"
    by (simp add: searchCommand_def searchCommand_from_eq)
  have once: "i < length (Commands b) \<longrightarrow>
        invocations i (searchCommand b msg) = (if matches b (msg_Text msg) i then 1 else 0)"
    by (simp add: all invocations_map_invoke)
  have single: "invocations 0 [invoke b msg 0] = 1"
    by (simp add: invocations_def invoke_def)
  show ?thesis
    using once by (simp add: all single)
qed

theorem dispatch_any_match_witness:
  "searchCommand hello_bot (said ''D1'' ''U7'' ''hello'')
     = [Handle 0 (NewConversation [] (said ''D1'' ''U7'' ''hello'') (Some (Conn 1)))]
   \<and> searchCommand hello_bot (said ''D1'' ''U7'' ''goodbye'') = []
   \<and> searchCommand deploy_bot (said ''D1'' ''U7'' ''deploy production'')
     = [Handle 0 (NewConversation [(''env'', ''production'')] (said ''D1'' ''U7'' ''deploy production'') (Some (Conn 1))),
        Handle 1 (NewConversation [] (said ''D1'' ''U7'' ''deploy production'') (Some (Conn 1)))]
   \<and> invocations 0 (searchCommand deploy_bot (said ''D1'' ''U7'' ''deploy production'')) = 1
   \<and> invocations 1 (searchCommand deploy_bot (said ''D1'' ''U7'' ''deploy production'')) = 1"
  using dispatch_any_match [of hello_bot "said ''D1'' ''U7'' ''hello''" 0 "hd (Commands hello_bot)"]
    dispatch_any_match [of hello_bot "said ''D1'' ''U7'' ''goodbye''" 0 "hd (Commands hello_bot)"]
    dispatch_any_match [of deploy_bot "said ''D1'' ''U7'' ''deploy production''" 0]
    dispatch_any_match [of deploy_bot "said ''D1'' ''U7'' ''deploy production''" 1]
  by (simp add: hello_bot_def deploy_bot_def said_def matches_def invoke_def exact_def
      deploy_env_def HasPrefix_def upt_rec invocations_def)

section \<open>Processing one message: proofs\<close>

text \<open>
  C2. A message that is not relevant for the bot has no effect: \<^verbatim>\<open>process\<close> returns at
  once, no handler is called and nothing is sent on the connection.
\<close>

theorem irrelevant_message_no_effect:
  fixes b :: "'m Bot"
  shows "\<not> IsRelevantFor mm M (ID b) \<Longrightarrow>
     process mm b M = [] \<and> invocations i (process mm b M) = 0 \<and> sent (process mm b M) = []"
  by (simp add: process_def invocations_def)

theorem irrelevant_message_no_effect_witness:
  "\<not> IsRelevantFor example_methods (said ''C1'' ''U7'' ''hello'') (ID hello_bot)
   \<and> process example_methods hello_bot (said ''C1'' ''U7'' ''hello'') = []
   \<and> process example_methods hello_bot (said ''D1'' ''U7'' ''hello'') \<noteq> []"
  using irrelevant_message_no_effect [of example_methods "said ''C1'' ''U7'' ''hello''" hello_bot 0]
  by (simp add: example_methods_def said_def hello_bot_def HasPrefix_def example_token_def
      process_def Message_StripMention_def strip_leading.simps SetText_def searchCommand_def
      searchCommand_from.simps exact_def)

section \<open>The help response: proofs\<close>

text \<open>The loop of \<^verbatim>\<open>sendHelp\<close> appends one line for each command from \<open>i\<close> on.\<close>

lemma sendHelp_from_eq:
  "sendHelp_from b i acc = acc @ concat (map help_line (drop i (Commands b)))"
proof (induction b i acc rule: sendHelp_from.induct)
  case (1 b i acc)
  show ?case
  proof (cases "i < length (Commands b)")
    case True
    define acc' where "acc' =
      (if Description (Commands b ! i) \<noteq> []
       then (acc @ ''`'' @ Text (Get (Commands b ! i)) @ ''`'') @ separator @ Description (Commands b ! i)
       else acc @ ''`'' @ Text (Get (Commands b ! i)) @ ''`'') @ [CHR 0x0A]"
    have ih: "sendHelp_from b (Suc i) acc' = acc' @ concat (map help_line (drop (Suc i) (Commands b)))"
      unfolding acc'_def by (rule "1.IH" [OF True refl refl refl refl])
    have step: "sendHelp_from b i acc = sendHelp_from b (Suc i) acc'"
      using True by (subst sendHelp_from.simps) (simp add: acc'_def Let_def)
    have line: "acc' = acc @ help_line (Commands b ! i)"
      by (simp add: acc'_def help_line_def)
    have d: "drop i (Commands b) = Commands b ! i # drop (Suc i) (Commands b)"
      using True by (simp add: Cons_nth_drop_Suc)
    show ?thesis
      using ih unfolding step line d by simp
  next
    case False
    then show ?thesis
      by (subst sendHelp_from.simps) simp
  qed
qed

text \<open>
  C7. The help reply is one text: the greeting, then one line for each registered command
  in registration order, the pattern text between backquotes followed by the description
  when it is not empty. When the message is not a direct message the text begins with an
  at-mention of its user; in a direct message it begins with the greeting.
\<close>

theorem help_response_text:
  fixes b :: "'m Bot"
  shows
  "map msg_Text (sent (sendHelp mm b msg)) = [help_block mm b msg]
   \<and> (IsDirectMessage mm msg \<longrightarrow>
        help_block mm b msg = greeting @ concat (map help_line (Commands b)))
   \<and> (\<not> IsDirectMessage mm msg \<longrightarrow>
        help_block mm b msg
        = ''<@'' @ msg_User msg @ ''>: '' @ greeting @ concat (map help_line (Commands b)))
   \<and> (Description cmd = [] \<longrightarrow> help_line cmd = ''`'' @ Text (Get cmd) @ ''`'' @ [CHR 0x0A])
   \<and> (Description cmd \<noteq> [] \<longrightarrow>
        help_line cmd
        = ''`'' @ Text (Get cmd) @ ''`'' @ separator @ Description cmd @ [CHR 0x0A])"
  by (simp add: sendHelp_def sendHelp_from_eq help_block_def at_mention_def SetText_def help_line_def)

theorem help_response_text_witness:
  "map msg_Text (sent (sendHelp example_methods deploy_bot (said ''C1'' ''U7'' ''help'')))
     = [''<@U7>: '' @ greeting @ ''`deploy <env>`'' @ separator @ ''roll out'' @ [CHR 0x0A]
        @ ''`deploy production`'' @ [CHR 0x0A]]
   \<and> map msg_Text (sent (sendHelp example_methods deploy_bot (said ''D1'' ''U7'' ''help'')))
     = [greeting @ ''`deploy <env>`'' @ separator @ ''roll out'' @ [CHR 0x0A]
        @ ''`deploy production`'' @ [CHR 0x0A]]"
  using help_response_text [of example_methods deploy_bot "said ''C1'' ''U7'' ''help''" "Commands deploy_bot ! 0"]
    help_response_text [of example_methods deploy_bot "said ''D1'' ''U7'' ''help''" "Commands deploy_bot ! 1"]
  by (simp add: example_methods_def said_def deploy_bot_def HasPrefix_def help_line_def)



section \<open>Session handshake: proofs\<close>









text \<open>The three parts of the result of \<^verbatim>\<open>Handshake\<close>, by what \<^verbatim>\<open>client.Get\<close> returns.\<close>

lemma Handshake_cases:
  "returned (Handshake w (b::'m Bot)) =
     (case client_Get w client (rtm_start (Token b)) of
        Inl err \<Rightarrow> (None, Some ''Failed to connect to Slack RTM API'')
      | Inr res \<Rightarrow> returned (Handshake_response w b dialer res))"
  by (simp add: Handshake_def returned_def split: sum.splits prod.splits)

lemma Handshake_receiver:
  "receiver (Handshake w (b::'m Bot)) =
     (case client_Get w client (rtm_start (Token b)) of
        Inl err \<Rightarrow> b
      | Inr res \<Rightarrow> receiver (Handshake_response w b dialer res))"
  by (simp add: Handshake_def receiver_def split: sum.splits prod.splits)





text \<open>
  C10. When the session is granted but the websocket upgrade fails, \<^verbatim>\<open>Handshake\<close>
  returns no Bot and an error, and the receiver keeps the session identity it was
  given before the upgrade: its ID is the response's, not the one it had.
\<close>

theorem Handshake_keeps_ID_on_upgrade_failure:
  fixes w :: World and b :: "'m Bot"
  assumes "client_Get w client (rtm_start (Token b)) = Inr res"
    and "StatusCode res = 200"
    and "Body res = Inr body"
    and "json_Unmarshal w body = Inr response"
    and "Ok response"
    and "websocket_NewConfig w (URL response) ''https://api.slack.com/'' = Inl err
         \<or> (websocket_NewConfig w (URL response) ''https://api.slack.com/'' = Inr config
            \<and> websocket_DialConfig w (config\<lparr>config_Dialer := Some dialer\<rparr>) = Inl err)"
  shows "fst (returned (Handshake w b)) = None
       \<and> snd (returned (Handshake w b)) \<noteq> None
       \<and> ID (receiver (Handshake w b)) = self_ID (Self response)
       \<and> Socket (receiver (Handshake w b)) = (case websocket_NewConfig w (URL response) ''https://api.slack.com/'' of Inl e \<Rightarrow> Socket b | Inr c \<Rightarrow> None)"
  using assms unfolding Handshake_cases Handshake_receiver
  by (auto simp: Handshake_response_def returned_def receiver_def)

theorem Handshake_keeps_ID_on_upgrade_failure_witness:
  "ID fresh_bot = []
   \<and> fst (returned (Handshake (world (ok_200 ''{}'') (Inr accepted) (Inr rtm_config) (Inl ''bad status'')) fresh_bot))
     = None
   \<and> snd (returned (Handshake (world (ok_200 ''{}'') (Inr accepted) (Inr rtm_config) (Inl ''bad status'')) fresh_bot))
     \<noteq> None
   \<and> ID (receiver (Handshake (world (ok_200 ''{}'') (Inr accepted) (Inr rtm_config) (Inl ''bad status'')) fresh_bot))
     = ''U123''"
  using Handshake_keeps_ID_on_upgrade_failure
    [where w = "world (ok_200 ''{}'') (Inr accepted) (Inr rtm_config) (Inl ''bad status'')"
      and b = fresh_bot and res = "\<lparr>StatusCode = 200, Body = Inr ''{}''\<rparr>" and body = "''{}''"
      and response = accepted and config = rtm_config and err = "''bad status''"]
  by (simp add: world_def ok_200_def accepted_def fresh_bot_def)

section \<open>The keepalive goroutine: proofs\<close>

lemma heartbeats_append: "heartbeats (xs @ ys) = heartbeats xs @ heartbeats ys"
  by (induction xs rule: heartbeats.induct) auto

lemma upt_0_Suc_shift: "map f [0..<Suc n] = f 0 # map (\<lambda>k. f (Suc k)) [0..<n]"
proof -
  have "[0..<Suc n] = 0 # map Suc [0..<n]"
    by (simp add: upt_conv_Cons map_Suc_upt del: upt_Suc)
  then show ?thesis
    by (simp add: comp_def del: upt_Suc)
qed

lemma ping_after_Suc: "ping_after (c + 1) k = ping_after c (Suc k)"
  by (simp add: ping_after_def add.assoc)

lemma ping_after_100: "ping_after 100 = ping"
  by (rule ext) (simp add: ping_after_def ping_def)

lemma slept_append: "slept (xs @ ys) = slept xs + slept ys"
  by (induction xs rule: slept.induct) auto

lemma heartbeats_send_heartbeat: "heartbeats (send_heartbeat s m r) = [m]"
  by (simp add: send_heartbeat_def split: option.splits)

lemma slept_send_heartbeat: "slept (send_heartbeat s m r) = 0"
  by (simp add: send_heartbeat_def split: option.splits)

lemma monitor_loop_Pong:
  "selected r = Pong \<Longrightarrow>
   monitor_loop s c (r # rs)
   = (send_heartbeat s (ping_after c 0) r @ [Select_pong_After Minute, Sleep Minute]
        @ fst (monitor_loop s (c + 1) rs),
      snd (monitor_loop s (c + 1) rs))"
  by (simp add: Let_def send_heartbeat_def ping_after_def split: prod.splits)

lemma monitor_loop_Timeout:
  "selected r = Timeout \<Longrightarrow>
   monitor_loop s c (r # rs)
   = (send_heartbeat s (ping_after c 0) r
        @ [Select_pong_After Minute, Log ''Waited more than a minute for a pong, exiting'',
           Socket_Close s]
        @ (case final_close_err r of None \<Rightarrow> [] | Some err \<Rightarrow> [Log ''Unable to close websocket: %v'']),
      True)"
  by (simp add: Let_def send_heartbeat_def ping_after_def)

lemma monitor_loop_heartbeats:
  "heartbeats (fst (monitor_loop s c rounds)) = map (ping_after c) [0..<executed rounds]"
proof (induction rounds arbitrary: c)
  case Nil
  then show ?case by simp
next
  case (Cons r rounds)
  show ?case
  proof (cases "selected r")
    case Pong
    have "heartbeats (fst (monitor_loop s c (r # rounds)))
        = ping_after c 0 # heartbeats (fst (monitor_loop s (c + 1) rounds))"
      by (simp add: monitor_loop_Pong [OF Pong] heartbeats_append heartbeats_send_heartbeat
          del: monitor_loop.simps)
    also have "\<dots> = ping_after c 0 # map (\<lambda>k. ping_after c (Suc k)) [0..<executed rounds]"
      by (simp add: Cons.IH ping_after_Suc)
    also have "\<dots> = map (ping_after c) [0..<Suc (executed rounds)]"
      by (rule upt_0_Suc_shift [symmetric])
    finally show ?thesis
      using Pong by simp
  next
    case Timeout
    then show ?thesis
      by (simp add: monitor_loop_Timeout [OF Timeout] heartbeats_append heartbeats_send_heartbeat
          del: monitor_loop.simps split: option.splits)
  qed
qed

lemma monitor_loop_slept:
  "(int (executed rounds) - 1) * Minute \<le> slept (fst (monitor_loop s c rounds))"
proof (induction rounds arbitrary: c)
  case Nil
  then show ?case by (simp add: Minute_def Second_def)
next
  case (Cons r rounds)
  show ?case
  proof (cases "selected r")
    case Pong
    have "slept (fst (monitor_loop s c (r # rounds)))
        = Minute + slept (fst (monitor_loop s (c + 1) rounds))"
      by (simp add: monitor_loop_Pong [OF Pong] slept_append slept_send_heartbeat
          del: monitor_loop.simps)
    moreover have "(int (executed rounds) - 1) * Minute \<le> slept (fst (monitor_loop s (c + 1) rounds))"
      by (rule Cons.IH)
    ultimately show ?thesis
      using Pong by (simp add: algebra_simps)
  next
    case Timeout
    then show ?thesis
      by (simp add: monitor_loop_Timeout [OF Timeout] slept_append slept_send_heartbeat
          del: monitor_loop.simps split: option.splits)
  qed
qed

lemma shift_turns:
  "map (\<lambda>k. send_heartbeat s (ping_after c k) ((r # acks) ! k) @ tail) [0..<Suc (length acks)]
   = (send_heartbeat s (ping_after c 0) r @ tail)
     # map (\<lambda>k. send_heartbeat s (ping_after (c + 1) k) (acks ! k) @ tail) [0..<length acks]"
  by (simp only: upt_0_Suc_shift ping_after_Suc nth_Cons_0 nth_Cons_Suc)

lemma monitor_loop_acknowledged:
  "\<forall>r \<in> set acks. selected r = Pong \<Longrightarrow>
   monitor_loop s c acks
   = (concat (map (\<lambda>k. send_heartbeat s (ping_after c k) (acks ! k)
                      @ [Select_pong_After Minute, Sleep Minute])
        [0..<length acks]), False)"
proof (induction acks arbitrary: c)
  case Nil
  then show ?case by simp
next
  case (Cons r acks)
  have r: "selected r = Pong" and rest: "\<forall>r \<in> set acks. selected r = Pong"
    using Cons.prems by simp_all
  show ?case
    unfolding monitor_loop_Pong [OF r] Cons.IH [OF rest] length_Cons shift_turns
    by (simp del: upt_Suc)
qed

lemma monitor_loop_timed_out:
  assumes "\<forall>r \<in> set acks. selected r = Pong" and "selected t = Timeout"
  shows "monitor_loop s c (acks @ t # rest)
   = (concat (map (\<lambda>k. send_heartbeat s (ping_after c k) (acks ! k)
                      @ [Select_pong_After Minute, Sleep Minute])
        [0..<length acks])
      @ send_heartbeat s (ping_after c (length acks)) t
      @ [Select_pong_After Minute, Log ''Waited more than a minute for a pong, exiting'',
         Socket_Close s]
      @ (case final_close_err t of None \<Rightarrow> [] | Some err \<Rightarrow> [Log ''Unable to close websocket: %v'']),
      True)"
  using assms(1)
proof (induction acks arbitrary: c)
  case Nil
  then show ?case
    by (simp add: monitor_loop_Timeout [OF assms(2)] del: monitor_loop.simps)
next
  case (Cons r acks)
  have r: "selected r = Pong" and more: "\<forall>r \<in> set acks. selected r = Pong"
    using Cons.prems by simp_all
  show ?case
    unfolding append_Cons monitor_loop_Pong [OF r] Cons.IH [OF more] length_Cons shift_turns
    by (simp add: ping_after_Suc del: upt_Suc)
qed

lemma executed_all_Pong: "\<forall>r \<in> set rounds. selected r = Pong \<Longrightarrow> executed rounds = length rounds"
  by (induction rounds) auto

lemma unat_ping_ID:
  assumes "101 + k < 2 ^ 64"
  shows "unat (msg_ID (ping k)) = 101 + k"
proof -
  have "msg_ID (ping k) = of_nat (101 + k)"
    by (simp add: ping_def)
  moreover have "unat (of_nat (101 + k) :: 64 word) = (101 + k) mod 2 ^ 64"
    by (simp only: unat_of_nat) simp
  ultimately show ?thesis
    using assms by simp
qed

lemma ping_ids_small:
  assumes "n \<le> 2 ^ 64 - 101"
  shows "map (\<lambda>m. unat (msg_ID m)) (map ping [0..<n]) = map (\<lambda>k. 101 + k) [0..<n]"
proof -
  have "unat (msg_ID (ping k)) = 101 + k" if "k < n" for k
    using that assms by (intro unat_ping_ID) simp
  then show ?thesis
    by simp
qed

lemma sorted_shifted: "sorted_wrt (<) (map (\<lambda>k. 101 + k) [0..<n])"
  by (simp add: sorted_wrt_map del: upt_Suc)

lemma monitor_heartbeats:
  "heartbeats (fst (monitor s rounds)) = map ping [0..<executed rounds]"
  using monitor_loop_heartbeats [of s 100 rounds]
  by (cases "monitor_loop s 100 rounds") (simp add: monitor_def ping_after_100)

lemma monitor_slept:
  "5 * Second + (int (executed rounds) - 1) * Minute \<le> slept (fst (monitor s rounds))"
  using monitor_loop_slept [of rounds s 100]
  by (cases "monitor_loop s 100 rounds") (simp add: monitor_def)

lemma acknowledged_eq:
  "(\<lambda>k. send_heartbeat s (ping_after 100 k) (acks ! k) @ [Select_pong_After Minute, Sleep Minute])
   = (\<lambda>k. acknowledged s k (acks ! k))"
  by (rule ext) (simp add: acknowledged_def ping_after_100 Minute_def)

text \<open>
  C5. On a Bot whose socket is set, the keepalive goroutine first sleeps 5 seconds. Its
  heartbeat frames have type \<^verbatim>\<open>ping\<close> and the ids 101, 102, ... in this order. The
  \<open>n\<close>-th heartbeat is not sent before the goroutine has slept 5 seconds and \<open>n - 1\<close>
  times 60 seconds, and while the 64-bit counter has not gone round, that is for the
  first \<open>2^64 - 101\<close> heartbeats, the ids are above 100 and strictly increasing. After a
  heartbeat the goroutine waits up to 60 seconds for the acknowledgment; when it comes,
  it sleeps 60 seconds and sends the next heartbeat; when the wait times out, it closes
  the connection and returns, whatever would come next.
\<close>

theorem keepalive_cycle:
  "(\<exists>effects. fst (monitor (Some conn) rounds) = Sleep (5 * Second) # effects)
   \<and> heartbeats (fst (monitor (Some conn) rounds)) = map ping [0..<executed rounds]
   \<and> (\<forall>k. msg_Type (ping k) = ''ping'' \<and> msg_ID (ping k) = of_nat (101 + k))
   \<and> 5 * Second + (int (executed rounds) - 1) * (60 * Second)
        \<le> slept (fst (monitor (Some conn) rounds))
   \<and> (executed rounds \<le> 2 ^ 64 - 101 \<longrightarrow>
        sorted_wrt (<) (heartbeat_ids (fst (monitor (Some conn) rounds)))
        \<and> (\<forall>i \<in> set (heartbeat_ids (fst (monitor (Some conn) rounds))). 100 < i))
   \<and> ((\<forall>r \<in> set rounds. selected r = Pong) \<longrightarrow>
        monitor (Some conn) rounds
        = (Sleep (5 * Second)
             # concat (map (\<lambda>k. acknowledged (Some conn) k (rounds ! k)) [0..<length rounds]),
           False))
   \<and> (\<forall>acks t rest.
        rounds = acks @ t # rest \<and> (\<forall>r \<in> set acks. selected r = Pong) \<and> selected t = Timeout \<longrightarrow>
        monitor (Some conn) rounds
        = (Sleep (5 * Second)
             # concat (map (\<lambda>k. acknowledged (Some conn) k (acks ! k)) [0..<length acks])
             @ timed_out (Some conn) (length acks) t,
           True))
   \<and> (\<forall>k r. send_err r = None \<longrightarrow>
        acknowledged (Some conn) k r
        = [Send_ping (Some conn) (ping k), Select_pong_After (60 * Second), Sleep (60 * Second)]
        \<and> (final_close_err r = None \<longrightarrow>
             timed_out (Some conn) k r
             = [Send_ping (Some conn) (ping k), Select_pong_After (60 * Second),
                Log ''Waited more than a minute for a pong, exiting'',
                Socket_Close (Some conn)]))"
proof -
  let ?s = "Some conn"
  have first: "\<exists>effects. fst (monitor ?s rounds) = Sleep (5 * Second) # effects"
    by (simp add: monitor_def split: prod.splits)
  have frames: "heartbeats (fst (monitor ?s rounds)) = map ping [0..<executed rounds]"
    by (rule monitor_heartbeats)
  have fields: "\<forall>k. msg_Type (ping k) = ''ping'' \<and> msg_ID (ping k) = of_nat (101 + k)"
    by (simp add: ping_def)
  have time: "5 * Second + (int (executed rounds) - 1) * (60 * Second)
        \<le> slept (fst (monitor ?s rounds))"
    using monitor_slept [of rounds ?s] by (simp add: Minute_def)
  have increasing: "sorted_wrt (<) (heartbeat_ids (fst (monitor ?s rounds)))
        \<and> (\<forall>i \<in> set (heartbeat_ids (fst (monitor ?s rounds))). 100 < i)"
    if "executed rounds \<le> 2 ^ 64 - 101"
  proof -
    have ids: "heartbeat_ids (fst (monitor ?s rounds)) = map (\<lambda>k. 101 + k) [0..<executed rounds]"
      unfolding heartbeat_ids_def frames by (rule ping_ids_small [OF that])
    show ?thesis
      unfolding ids using sorted_shifted by auto
  qed
  have acked: "monitor ?s rounds
        = (Sleep (5 * Second)
             # concat (map (\<lambda>k. acknowledged ?s k (rounds ! k)) [0..<length rounds]), False)"
    if "\<forall>r \<in> set rounds. selected r = Pong"
  proof -
    note loop = monitor_loop_acknowledged [OF that, of ?s 100, unfolded acknowledged_eq]
    show ?thesis
      by (simp add: monitor_def loop)
  qed
  have timeout: "monitor ?s rounds
        = (Sleep (5 * Second)
             # concat (map (\<lambda>k. acknowledged ?s k (acks ! k)) [0..<length acks])
             @ timed_out ?s (length acks) t,
           True)"
    if "rounds = acks @ t # rest" "\<forall>r \<in> set acks. selected r = Pong" "selected t = Timeout"
    for acks t rest
  proof -
    note loop = monitor_loop_timed_out [OF that(2,3), of ?s 100 rest, unfolded acknowledged_eq]
    show ?thesis
      by (simp add: monitor_def that(1) loop timed_out_def ping_after_100 Minute_def)
  qed
  have sent: "\<forall>k r. send_err r = None \<longrightarrow>
        acknowledged ?s k r
        = [Send_ping ?s (ping k), Select_pong_After (60 * Second), Sleep (60 * Second)]
        \<and> (final_close_err r = None \<longrightarrow>
             timed_out ?s k r
             = [Send_ping ?s (ping k), Select_pong_After (60 * Second),
                Log ''Waited more than a minute for a pong, exiting'', Socket_Close ?s])"
    by (simp add: acknowledged_def timed_out_def send_heartbeat_def)
  show ?thesis
    using first frames fields time increasing acked timeout sent by blast
qed

theorem keepalive_cycle_witness:
  "monitor (Some (Conn 1)) [sent_round Pong None, sent_round Timeout None]
     = ([Sleep (5 * Second),
         Send_ping (Some (Conn 1)) (Message_zero\<lparr>msg_ID := 101, msg_Type := ''ping''\<rparr>),
         Select_pong_After (60 * Second), Sleep (60 * Second),
         Send_ping (Some (Conn 1)) (Message_zero\<lparr>msg_ID := 102, msg_Type := ''ping''\<rparr>),
         Select_pong_After (60 * Second),
         Log ''Waited more than a minute for a pong, exiting'', Socket_Close (Some (Conn 1))],
        True)
   \<and> heartbeat_ids (fst (monitor (Some (Conn 1)) [sent_round Pong None, sent_round Timeout None]))
     = [101, 102]
   \<and> sorted_wrt (<)
       (heartbeat_ids (fst (monitor (Some (Conn 1)) [sent_round Pong None, sent_round Timeout None])))
   \<and> snd (monitor (Some (Conn 1)) [sent_round Pong None, sent_round Pong None]) = False"
proof -
  note run = keepalive_cycle [of "Conn 1" "[sent_round Pong None, sent_round Timeout None]"]
  note run' = keepalive_cycle [of "Conn 1" "[sent_round Pong None, sent_round Pong None]"]
  have bound: "executed [sent_round Pong None, sent_round Timeout None] \<le> 2 ^ 64 - 101"
    by (simp add: sent_round_def)
  have timeout: "monitor (Some (Conn 1)) [sent_round Pong None, sent_round Timeout None]
      = (Sleep (5 * Second)
           # concat (map (\<lambda>k. acknowledged (Some (Conn 1)) k ([sent_round Pong None] ! k))
               [0..<length [sent_round Pong None]])
           @ timed_out (Some (Conn 1)) (length [sent_round Pong None]) (sent_round Timeout None),
         True)"
    using run [THEN conjunct2, THEN conjunct2, THEN conjunct2, THEN conjunct2, THEN conjunct2,
        THEN conjunct2, THEN conjunct1,
        rule_format, of "[sent_round Pong None]" "sent_round Timeout None" "[]"]
    by (simp add: sent_round_def)
  have frames: "heartbeats (fst (monitor (Some (Conn 1)) [sent_round Pong None, sent_round Timeout None]))
      = [ping 0, ping 1]"
    using run by (simp add: sent_round_def upt_rec)
  have sorted: "sorted_wrt (<)
       (heartbeat_ids (fst (monitor (Some (Conn 1)) [sent_round Pong None, sent_round Timeout None])))"
    using run bound by blast
  have running: "snd (monitor (Some (Conn 1)) [sent_round Pong None, sent_round Pong None]) = False"
    using run' by (simp add: sent_round_def)
  show ?thesis
    using timeout frames sorted running
    by (simp add: acknowledged_def timed_out_def send_heartbeat_def ping_def sent_round_def
        heartbeat_ids_def)
qed

text \<open>
  C4. When the first ping cannot be sent, the goroutine logs, closes the connection and
  goes on to the \<^verbatim>\<open>select\<close>: there is no \<^verbatim>\<open>return\<close> after the failed send. It has not
  returned while it waits for the acknowledgment. If the wait times out, it closes the
  connection a second time and returns; if a pong is handed over, it sleeps a minute and
  sends the next heartbeat, with id 102.
\<close>

theorem monitor_continues_after_failed_send:
  "monitor (Some (Conn 1)) [failed_send_then_timeout]
     = ([Sleep (5 * Second),
         Send_ping (Some (Conn 1)) (Message_zero\<lparr>msg_ID := 101, msg_Type := ''ping''\<rparr>),
         Log ''Unable to send a ping to the Slack API: %v'',
         Socket_Close (Some (Conn 1)),
         Select_pong_After Minute,
         Log ''Waited more than a minute for a pong, exiting'',
         Socket_Close (Some (Conn 1)),
         Log ''Unable to close websocket: %v''],
        True)
   \<and> monitor (Some (Conn 1)) [failed_send_then_pong]
     = ([Sleep (5 * Second),
         Send_ping (Some (Conn 1)) (Message_zero\<lparr>msg_ID := 101, msg_Type := ''ping''\<rparr>),
         Log ''Unable to send a ping to the Slack API: %v'',
         Socket_Close (Some (Conn 1)),
         Select_pong_After Minute, Sleep Minute],
        False)
   \<and> monitor (Some (Conn 1)) [failed_send_then_pong, sent_round Timeout None]
     = ([Sleep (5 * Second),
         Send_ping (Some (Conn 1)) (Message_zero\<lparr>msg_ID := 101, msg_Type := ''ping''\<rparr>),
         Log ''Unable to send a ping to the Slack API: %v'',
         Socket_Close (Some (Conn 1)),
         Select_pong_After Minute, Sleep Minute,
         Send_ping (Some (Conn 1)) (Message_zero\<lparr>msg_ID := 102, msg_Type := ''ping''\<rparr>),
         Select_pong_After Minute,
         Log ''Waited more than a minute for a pong, exiting'', Socket_Close (Some (Conn 1))],
        True)"
  by (simp add: monitor_def failed_send_then_pong_def failed_send_then_timeout_def sent_round_def)

section \<open>The receive loop: proofs\<close>

lemma Listen_loop_frames:
  "Listen_loop Message_zero (map received fs @ rest)
   = (map classify fs @ fst (Listen_loop Message_zero rest), snd (Listen_loop Message_zero rest))"
proof (induction fs)
  case Nil
  then show ?case by simp
next
  case (Cons fw fs)
  obtain f waiting where fw: "fw = (f, waiting)"
    by (cases fw)
  show ?case
    by (simp add: fw received_def classify_def Cons.IH [unfolded received_def] Let_def
        split: prod.splits)
qed

lemma Listen_loop_no_pong:
  "Go_process m \<in> set (fst (Listen_loop msg turns)) \<Longrightarrow> msg_Type m \<noteq> ''pong''"
proof (induction msg turns rule: Listen_loop.induct)
  case (1 msg)
  then show ?case by simp
next
  case (2 msg err waiting turns)
  then show ?case by simp
next
  case (3 msg f waiting turns)
  then show ?case
    by (auto simp: Let_def split: prod.splits if_splits)
qed

text \<open>
  C6. \<^verbatim>\<open>Listen\<close> starts the keepalive goroutine and then treats the frames in the order
  received, each decoded into a zero \<^verbatim>\<open>Message\<close>: a frame of type \<^verbatim>\<open>pong\<close> is offered
  on the \<^verbatim>\<open>pong\<close> channel, handed over if the goroutine is waiting and dropped if not,
  and is never passed to \<^verbatim>\<open>process\<close>; any other frame starts \<^verbatim>\<open>go b.process\<close> on the
  decoded message. The loop goes on while frames arrive, and at the first read that
  fails \<^verbatim>\<open>Listen\<close> returns the error of that read.
\<close>

theorem receive_loop_classifies:
  "Listen (map received fs @ (Inl err, waiting) # rest) = (Go_monitor # map classify fs, Some err)
   \<and> Listen (map received fs) = (Go_monitor # map classify fs, None)
   \<and> (msg_Type (decode f Message_zero) = ''pong'' \<longrightarrow>
        classify (f, True) = Pong_delivered \<and> classify (f, False) = Pong_dropped)
   \<and> (msg_Type (decode f Message_zero) \<noteq> ''pong'' \<longrightarrow>
        classify (f, w) = Go_process (decode f Message_zero))
   \<and> (Go_process m \<in> set (fst (Listen turns)) \<longrightarrow> msg_Type m \<noteq> ''pong'')"
proof -
  have failing: "Listen (map received fs @ (Inl err, waiting) # rest)
      = (Go_monitor # map classify fs, Some err)"
    by (simp add: Listen_def Listen_loop_frames)
  have running: "Listen (map received fs) = (Go_monitor # map classify fs, None)"
    using Listen_loop_frames [of fs "[]"] by (simp add: Listen_def)
  have content: "Go_process m \<in> set (fst (Listen turns)) \<longrightarrow> msg_Type m \<noteq> ''pong''"
    using Listen_loop_no_pong [of m Message_zero turns]
    by (cases "Listen_loop Message_zero turns") (simp add: Listen_def)
  show ?thesis
    using failing running content by (simp add: classify_def)
qed

theorem receive_loop_classifies_witness:
  "Listen [(Inr (text_frame ''hello''), False), (Inr pong_frame, True), (Inr pong_frame, False),
           (Inr empty_frame, True),
           (Inl ''EOF'', False), (Inr (text_frame ''late''), False)]
   = ([Go_monitor,
       Go_process \<lparr>msg_ID = 0, msg_Type = ''message'', msg_Channel = ''D1'', msg_User = ''U7'', msg_Text = ''hello''\<rparr>,
       Pong_delivered, Pong_dropped, Go_process Message_zero],
      Some ''EOF'')"
  using receive_loop_classifies
    [of "[(text_frame ''hello'', False), (pong_frame, True), (pong_frame, False),
          (empty_frame, True)]"
      "''EOF''" False "[(Inr (text_frame ''late''), False)]" pong_frame]
  by (simp add: received_def classify_def decode_def pong_frame_def text_frame_def empty_frame_def
      Message_zero_def)

section \<open>Message normalisation: proofs\<close>









end
